theory Spec2Isabelle
  imports Complex_Main
begin

section \<open>Expense tracker: the expense store and the report export\<close>

text \<open>
  The program is one React component, \<^verbatim>\<open>ExpenseTracker\<close>. Its state (the expense
  list, the selected filter, the add form) and everything its handlers do to the outside
  (alerts, confirmation prompts, the browser's storage, the saved report) are the fields
  of one record; each handler is a function from the state it was rendered with to the
  next state. Values read from the platform inside a handler (the clock, the answer to a
  confirmation prompt, page geometry) are arguments of the handler.
\<close>

subsection \<open>Numbers\<close>

text \<open>
  A JavaScript \<^verbatim>\<open>number\<close>: a double. A finite double is represented by the
  rational it stands for; the two zeros are one value. The results of arithmetic and of
  reading decimal text are rounded to the nearest double by \<open>toDouble\<close>.
\<close>

datatype number = NaN | PosInfinity | NegInfinity | Finite rat

definition pow2 :: "int \<Rightarrow> rat" where
  "pow2 e = (if 0 \<le> e then 2 ^ nat e else 1 / 2 ^ nat (- e))"

text \<open>The position of the leading bit: \<open>2 ^ natLog2 n \<le> n < 2 ^ (natLog2 n + 1)\<close> for positive \<open>n\<close>.\<close>

fun natLog2 :: "nat \<Rightarrow> nat" where
  "natLog2 n = (if n < 2 then 0 else Suc (natLog2 (n div 2)))"

declare natLog2.simps [simp del]

text \<open>The binary exponent of a positive rational: \<open>pow2 e \<le> a < pow2 (e + 1)\<close>.\<close>

definition floorLog2 :: "rat \<Rightarrow> int" where
  "floorLog2 a =
     (if 1 \<le> a then int (natLog2 (nat \<lfloor>a\<rfloor>))
      else - int (Suc (natLog2 (nat \<lceil>1 / a\<rceil> - 1))))"

text \<open>The nearest integer, the even one of the two when they are equally near.\<close>

definition roundHalfEven :: "rat \<Rightarrow> int" where
  "roundHalfEven q =
     (let f = \<lfloor>q\<rfloor>; d = q - of_int f
      in if d < 1 / 2 then f else if 1 / 2 < d then f + 1 else if even f then f else f + 1)"

text \<open>
  The double nearest to a rational (IEEE 754 binary64, round to nearest, ties to even):
  from \<open>2\<^sup>1\<^sup>0\<^sup>2\<^sup>4 - 2\<^sup>9\<^sup>7\<^sup>0\<close> on the result is an infinity; below \<open>2\<^sup>-\<^sup>1\<^sup>0\<^sup>2\<^sup>2\<close> the
  doubles are the multiples of \<open>2\<^sup>-\<^sup>1\<^sup>0\<^sup>7\<^sup>4\<close>; in between a double has 53 significant bits.
\<close>

definition toDouble :: "rat \<Rightarrow> number" where
  "toDouble r =
     (if r = 0 then Finite 0
      else if 2 ^ 1024 - 2 ^ 970 \<le> \<bar>r\<bar> then (if r < 0 then NegInfinity else PosInfinity)
      else if \<bar>r\<bar> < 1 / 2 ^ 1022
      then Finite (of_int (roundHalfEven (r * 2 ^ 1074)) / 2 ^ 1074)
      else
        (let ulp = pow2 (floorLog2 \<bar>r\<bar> - 52)
         in Finite (of_int (roundHalfEven (r / ulp)) * ulp)))"

text \<open>The operator \<^verbatim>\<open>+\<close> on two numbers.\<close>

fun num_add :: "number \<Rightarrow> number \<Rightarrow> number" where
  "num_add NaN _ = NaN"
| "num_add _ NaN = NaN"
| "num_add PosInfinity NegInfinity = NaN"
| "num_add NegInfinity PosInfinity = NaN"
| "num_add PosInfinity _ = PosInfinity"
| "num_add _ PosInfinity = PosInfinity"
| "num_add NegInfinity _ = NegInfinity"
| "num_add _ NegInfinity = NegInfinity"
| "num_add (Finite a) (Finite b) = toDouble (a + b)"

text \<open>\<^verbatim>\<open>x >= 0\<close>: false for \<^verbatim>\<open>NaN\<close>.\<close>

fun num_nonneg :: "number \<Rightarrow> bool" where
  "num_nonneg NaN = False"
| "num_nonneg PosInfinity = True"
| "num_nonneg NegInfinity = False"
| "num_nonneg (Finite r) = (0 \<le> r)"

text \<open>\<^verbatim>\<open>Number.isFinite\<close>.\<close>

fun isFinite :: "number \<Rightarrow> bool" where
  "isFinite (Finite r) = True"
| "isFinite _ = False"

subsection \<open>Decimal text\<close>

definition digitChar :: "nat \<Rightarrow> char" where
  "digitChar d = ''0123456789'' ! (d mod 10)"

text \<open>
  \<^verbatim>\<open>toString()\<close> of a non-negative integer (a clock reading, a count): its decimal
  digits, most significant first.
\<close>

function toString :: "nat \<Rightarrow> string" where
  "toString n =
     (if n < 10 then [digitChar n] else toString (n div 10) @ [digitChar (n mod 10)])"
  by pat_completeness auto
termination
  by (relation "measure (\<lambda>n. n)") auto

declare toString.simps [simp del]

definition isDigit :: "char \<Rightarrow> bool" where
  "isDigit c = (let n = (of_char c :: nat) in 48 \<le> n \<and> n \<le> 57)"

definition digitValue :: "char \<Rightarrow> nat" where
  "digitValue c = (of_char c :: nat) - 48"

definition digitsValue :: "string \<Rightarrow> nat" where
  "digitsValue ds = foldl (\<lambda>acc c. 10 * acc + digitValue c) 0 ds"

text \<open>
  Text is a list of character codes below 256. The white space that \<^verbatim>\<open>parseFloat\<close>
  skips at the start: space, tab, line feed, vertical tab, form feed, carriage return
  and the no-break space.
\<close>

definition isWhiteSpace :: "char \<Rightarrow> bool" where
  "isWhiteSpace c =
     (c \<in> set [CHR '' '', CHR 0x09, CHR 0x0A, CHR 0x0B, CHR 0x0C, CHR 0x0D, CHR 0xA0])"

text \<open>An optional sign in front of a literal: whether it is a minus, and the rest.\<close>

fun signOf :: "string \<Rightarrow> bool \<times> string" where
  "signOf [] = (False, [])"
| "signOf (c # cs) =
     (if c = CHR ''-'' then (True, cs)
      else if c = CHR ''+'' then (False, cs)
      else (False, c # cs))"

text \<open>
  The exponent part \<^verbatim>\<open>e\<close>/\<^verbatim>\<open>E\<close>, optional sign, digits; when the digits are
  missing the literal ends before the \<^verbatim>\<open>e\<close> and the exponent is 0.
\<close>

fun exponentPart :: "string \<Rightarrow> int" where
  "exponentPart [] = 0"
| "exponentPart (c # cs) =
     (if c = CHR ''e'' \<or> c = CHR ''E'' then
        (let (neg, ds) = signOf cs; digits = takeWhile isDigit ds
         in if digits = [] then 0
            else if neg then - int (digitsValue digits) else int (digitsValue digits))
      else 0)"

definition pow10 :: "int \<Rightarrow> rat" where
  "pow10 e = (if 0 \<le> e then 10 ^ nat e else 1 / 10 ^ nat (- e))"

text \<open>The fraction after the integer digits: its digits, and what follows them.\<close>

fun fractionPart :: "string \<Rightarrow> string \<times> string" where
  "fractionPart [] = ([], [])"
| "fractionPart (c # cs) =
     (if c = CHR ''.'' then (takeWhile isDigit cs, dropWhile isDigit cs) else ([], c # cs))"

text \<open>
  \<^verbatim>\<open>Number.parseFloat\<close>: leading white space is skipped, the longest prefix that is a
  decimal literal (sign, \<^verbatim>\<open>Infinity\<close> or digits with an optional fraction and
  exponent) is read and whatever follows is ignored; with no such prefix the result is
  \<^verbatim>\<open>NaN\<close>. The value of the literal is rounded to a double.
\<close>

definition parseFloat :: "string \<Rightarrow> number" where
  "parseFloat inputString =
     (let trimmed = dropWhile isWhiteSpace inputString;
          (neg, unsigned) = signOf trimmed
      in if take 8 unsigned = ''Infinity'' then (if neg then NegInfinity else PosInfinity)
         else
           (let intDigits = takeWhile isDigit unsigned;
                (fracDigits, rest) = fractionPart (dropWhile isDigit unsigned)
            in if intDigits = [] \<and> fracDigits = [] then NaN
               else
                 (let v = rat_of_nat (digitsValue (intDigits @ fracDigits))
                            / 10 ^ length fracDigits * pow10 (exponentPart rest)
                  in toDouble (if neg then - v else v))))"

text \<open>
  The decimal text of a double from \<open>10\<^sup>2\<^sup>1\<close> on, as \<^verbatim>\<open>toString()\<close> writes it: the
  fewest digits \<open>s\<close> that, as \<open>s \<times> 10\<^sup>n\<^sup>-\<^sup>k\<close>, still round to the double (of several
  such the nearest one), then the exponent. \<open>k\<close> is the number of digits, tried from 1
  upwards; 17 digits always suffice. \<open>n\<close> is the number of digits of the double's integer
  part, or one more.
\<close>

fun digitCount :: "nat \<Rightarrow> nat" where
  "digitCount n = (if n < 10 then 1 else 1 + digitCount (n div 10))"

declare digitCount.simps [simp del]

definition candidates :: "rat \<Rightarrow> nat \<Rightarrow> nat \<Rightarrow> (nat \<times> nat) list" where
  "candidates x k n =
     (let s = nat \<lfloor>x / 10 ^ (n - k)\<rfloor>
      in map (\<lambda>s. (s, n))
           (filter (\<lambda>s. 10 ^ (k - 1) \<le> s \<and> s < 10 ^ k
                        \<and> toDouble (rat_of_nat s * 10 ^ (n - k)) = Finite x) [s, s + 1]))"

definition distance :: "rat \<Rightarrow> nat \<Rightarrow> nat \<times> nat \<Rightarrow> rat" where
  "distance x k c = \<bar>rat_of_nat (fst c) * 10 ^ (snd c - k) - x\<bar>"

fun closest :: "rat \<Rightarrow> nat \<Rightarrow> (nat \<times> nat) list \<Rightarrow> (nat \<times> nat) option" where
  "closest x k [] = None"
| "closest x k (c # cs) =
     (case closest x k cs of
        None \<Rightarrow> Some c
      | Some c' \<Rightarrow>
          if distance x k c < distance x k c' \<or> (distance x k c = distance x k c' \<and> even (fst c))
          then Some c else Some c')"

fun shortestDigits :: "rat \<Rightarrow> nat \<Rightarrow> nat \<Rightarrow> nat \<Rightarrow> nat \<times> nat" where
  "shortestDigits x d k 0 = (nat \<lfloor>x / 10 ^ (d - k)\<rfloor>, d)"
| "shortestDigits x d k (Suc fuel) =
     (case closest x k (candidates x k d @ candidates x k (d + 1)) of
        Some c \<Rightarrow> c
      | None \<Rightarrow> shortestDigits x d (k + 1) fuel)"

definition exponentText :: "rat \<Rightarrow> string" where
  "exponentText x =
     (let (s, n) = shortestDigits x (digitCount (nat \<lfloor>x\<rfloor>)) 1 17;
          ds = toString s
      in (if length ds = 1 then ds else take 1 ds @ ''.'' @ drop 1 ds) @ ''e+'' @ toString (n - 1))"

text \<open>
  \<^verbatim>\<open>toFixed(2)\<close>: the sign, then for a magnitude below \<open>10\<^sup>2\<^sup>1\<close> the integer nearest
  to a hundred times the magnitude (the larger one on a tie) written with two digits
  after the point, and from \<open>10\<^sup>2\<^sup>1\<close> on the text with an exponent.
\<close>

fun toFixed2 :: "number \<Rightarrow> string" where
  "toFixed2 NaN = ''NaN''"
| "toFixed2 PosInfinity = ''Infinity''"
| "toFixed2 NegInfinity = ''-Infinity''"
| "toFixed2 (Finite r) =
     (if r < 0 then ''-'' else '''') @
     (if 10 ^ 21 \<le> \<bar>r\<bar> then exponentText \<bar>r\<bar>
      else
        (let n = nat \<lfloor>\<bar>r\<bar> * 100 + 1 / 2\<rfloor>
         in toString (n div 100) @ ''.'' @ [digitChar (n mod 100 div 10), digitChar (n mod 10)]))"

subsection \<open>The data\<close>

text \<open>The add form: four text fields, as typed.\<close>

record FormData =
  date :: string
  category :: string
  amount :: string
  description :: string

text \<open>\<^verbatim>\<open>interface Expense\<close>. The field \<^verbatim>\<open>id\<close> is written \<open>id'\<close>.\<close>

record Expense =
  id' :: string
  date :: string
  category :: string
  amount :: number
  description :: string

definition categories :: "string list" where
  "categories =
     [''Food'', ''Transport'', ''Entertainment'', ''Utilities'', ''Health'', ''Shopping'', ''Other'']"

definition uniqueCategories :: "string list" where
  "uniqueCategories = ''All'' # categories"

subsection \<open>Persistence\<close>

text \<open>
  Values as the program holds them in memory, and values as JSON text can express them.
  The text itself is the platform's: a stored item is represented by what
  \<^verbatim>\<open>JSON.parse\<close> makes of it, which is a JSON value, a syntax error, or nothing for
  the empty string. A number in a JSON value is the double that its text reads as; the
  text that \<^verbatim>\<open>JSON.stringify\<close> writes for a finite double reads as that double.
\<close>

datatype jsval =
  VNull
  | VNumber number
  | VString string
  | VArray "jsval list"
  | VObject "(string \<times> jsval) list"

datatype json =
  JNull
  | JNumber rat
  | JString string
  | JArray "json list"
  | JObject "(string \<times> json) list"

datatype item = EmptyText | MalformedText | JsonText json

text \<open>
  \<^verbatim>\<open>JSON.stringify\<close>: a number that is not finite is written \<^verbatim>\<open>null\<close>; the
  properties of an object keep their order.
\<close>

primrec JSON_stringify :: "jsval \<Rightarrow> json" where
  "JSON_stringify VNull = JNull"
| "JSON_stringify (VNumber n) = (case n of Finite r \<Rightarrow> JNumber r | _ \<Rightarrow> JNull)"
| "JSON_stringify (VString s) = JString s"
| "JSON_stringify (VArray vs) = JArray (map JSON_stringify vs)"
| "JSON_stringify (VObject ps) = JObject (map (map_prod (\<lambda>k. k) JSON_stringify) ps)"

text \<open>\<^verbatim>\<open>JSON.parse\<close> of text that is well formed.\<close>

primrec JSON_parse :: "json \<Rightarrow> jsval" where
  "JSON_parse JNull = VNull"
| "JSON_parse (JNumber r) = VNumber (Finite r)"
| "JSON_parse (JString s) = VString s"
| "JSON_parse (JArray js) = VArray (map JSON_parse js)"
| "JSON_parse (JObject ps) = VObject (map (map_prod (\<lambda>k. k) JSON_parse) ps)"

text \<open>An expense as a value: the object literal of \<^verbatim>\<open>handleAddExpense\<close>.\<close>

definition expenseValue :: "Expense \<Rightarrow> jsval" where
  "expenseValue e =
     VObject [(''id'', VString (id' e)), (''date'', VString (date e)),
              (''category'', VString (category e)), (''amount'', VNumber (amount e)),
              (''description'', VString (description e))]"

definition expensesValue :: "Expense list \<Rightarrow> jsval" where
  "expensesValue xs = VArray (map expenseValue xs)"

text \<open>
  The save effect: \<^verbatim>\<open>localStorage.setItem("expenses", JSON.stringify(expenses))\<close>;
  the result is the item stored under the key.
\<close>

definition saveExpenses :: "Expense list \<Rightarrow> item" where
  "saveExpenses xs = JsonText (JSON_stringify (expensesValue xs))"

text \<open>
  The load effect on mount. It reads the item under the key; a missing or empty item
  leaves the state alone, text that does not parse is logged, and otherwise
  \<^verbatim>\<open>setExpenses\<close> receives the parsed value as it is.
\<close>

datatype load_result = NotStored | ParseFailed string | Loaded jsval

fun loadExpenses :: "item option \<Rightarrow> load_result" where
  "loadExpenses None = NotStored"
| "loadExpenses (Some EmptyText) = NotStored"
| "loadExpenses (Some MalformedText) = ParseFailed ''Failed to parse expenses:''"
| "loadExpenses (Some (JsonText j)) = Loaded (JSON_parse j)"

subsection \<open>The report document\<close>

text \<open>
  The calls made on the \<^verbatim>\<open>jsPDF\<close> document, in order. Of the table's options the
  head, the body and the start position are kept; its styling is constant.
\<close>

datatype pdfCommand =
  SetFontSize nat
  | SetFont string string
  | Text string rat rat string
  | AutoTable "string list list" "string list list" rat

record PdfFile =
  fileName :: string
  commands :: "pdfCommand list"

text \<open>
  What \<^verbatim>\<open>downloadPDF\<close> reads from the platform: the page size, where the table
  ended, today's date in the locale's format and in ISO format, and whether any call
  on the document throws.
\<close>

record PdfEnv =
  pageWidth :: rat
  pageHeight :: rat
  finalY :: rat
  localeDate :: string
  isoDate :: string
  throws :: bool

subsection \<open>The component state\<close>

record State =
  expenses :: "Expense list"
  filterCategory :: string
  formData :: FormData
  localStorage :: "item option"
  alerts :: "string list"
  confirms :: "string list"
  consoleErrors :: "string list"
  downloads :: "PdfFile list"

text \<open>The form's initial and reset value; \<open>today\<close> is the current date in ISO format.\<close>

definition defaultForm :: "string \<Rightarrow> FormData" where
  "defaultForm today =
     \<lparr>FormData.date = today, FormData.category = ''Food'', FormData.amount = '''',
      FormData.description = ''''\<rparr>"

text \<open>
  \<^verbatim>\<open>setExpenses\<close> with a new array, followed by the save effect that runs whenever
  \<^verbatim>\<open>expenses\<close> changes.
\<close>

definition setExpenses :: "Expense list \<Rightarrow> State \<Rightarrow> State" where
  "setExpenses xs s = s\<lparr>expenses := xs, localStorage := Some (saveExpenses xs)\<rparr>"

definition alert :: "string \<Rightarrow> State \<Rightarrow> State" where
  "alert msg s = s\<lparr>alerts := alerts s @ [msg]\<rparr>"

text \<open>\<^verbatim>\<open>window.confirm\<close>: the prompt is shown; the answer is the handler's argument.\<close>

definition confirm :: "string \<Rightarrow> State \<Rightarrow> State" where
  "confirm msg s = s\<lparr>confirms := confirms s @ [msg]\<rparr>"

subsection \<open>The handlers\<close>

text \<open>
  A form field changed: the field called \<open>name\<close> takes \<open>v\<close>. The form has inputs
  of these four names only; any other name leaves the four fields as they are.
\<close>

definition handleInputChange :: "string \<Rightarrow> string \<Rightarrow> State \<Rightarrow> State" where
  "handleInputChange name v s =
     (let prev = formData s
      in s\<lparr>formData :=
           (if name = ''date'' then prev\<lparr>FormData.date := v\<rparr>
            else if name = ''category'' then prev\<lparr>FormData.category := v\<rparr>
            else if name = ''amount'' then prev\<lparr>FormData.amount := v\<rparr>
            else if name = ''description'' then prev\<lparr>FormData.description := v\<rparr>
            else prev)\<rparr>)"

definition setFilterCategory :: "string \<Rightarrow> State \<Rightarrow> State" where
  "setFilterCategory v s = s\<lparr>filterCategory := v\<rparr>"

text \<open>
  \<^verbatim>\<open>handleAddExpense\<close>; \<open>now\<close> is \<^verbatim>\<open>Date.now()\<close> and \<open>today\<close> the current date
  in ISO format.
\<close>

definition newExpense :: "nat \<Rightarrow> FormData \<Rightarrow> Expense" where
  "newExpense now f =
     \<lparr>id' = toString now, date = FormData.date f, category = FormData.category f,
      amount = parseFloat (FormData.amount f), description = FormData.description f\<rparr>"

definition handleAddExpense :: "nat \<Rightarrow> string \<Rightarrow> State \<Rightarrow> State" where
  "handleAddExpense now today s =
     (if FormData.date (formData s) = '''' \<or> FormData.category (formData s) = ''''
         \<or> FormData.amount (formData s) = ''''
      then alert ''Please fill in all required fields'' s
      else (setExpenses (newExpense now (formData s) # expenses s) s)
             \<lparr>formData := defaultForm today\<rparr>)"

definition handleDeleteExpense :: "string \<Rightarrow> State \<Rightarrow> State" where
  "handleDeleteExpense i s = setExpenses (filter (\<lambda>expense. id' expense \<noteq> i) (expenses s)) s"

definition handleDeleteAll :: "bool \<Rightarrow> State \<Rightarrow> State" where
  "handleDeleteAll answer s =
     (let s' = confirm
                 ''Are you sure you want to delete ALL expenses? This action cannot be undone.'' s
      in if answer then setExpenses [] s' else s')"

definition handleDeleteByCategory :: "bool \<Rightarrow> State \<Rightarrow> State" where
  "handleDeleteByCategory answer s =
     (if filterCategory s = ''All'' then alert ''Please select a specific category to delete'' s
      else
        (let count = length (filter (\<lambda>expense. category expense = filterCategory s) (expenses s))
         in if count = 0 then alert (''No expenses found in category: '' @ filterCategory s) s
            else
              (let s' = confirm
                          (''Are you sure you want to delete all '' @ toString count
                             @ '' expense(s) in category '' @ [CHR 0x22] @ filterCategory s
                             @ [CHR 0x22] @ ''? This action cannot be undone.'') s
               in if answer
                  then setExpenses
                         (filter (\<lambda>expense. category expense \<noteq> filterCategory s) (expenses s)) s'
                  else s')))"

subsection \<open>The derived view\<close>

definition filteredExpenses :: "State \<Rightarrow> Expense list" where
  "filteredExpenses s =
     (if filterCategory s = ''All'' then expenses s
      else filter (\<lambda>expense. category expense = filterCategory s) (expenses s))"

definition totalAmount :: "State \<Rightarrow> number" where
  "totalAmount s =
     foldl (\<lambda>sum expense. num_add sum (amount expense)) (Finite 0) (filteredExpenses s)"

subsection \<open>The report\<close>

definition tableData :: "Expense list \<Rightarrow> string list list" where
  "tableData xs =
     map (\<lambda>expense.
            [date expense, category expense, toFixed2 (amount expense),
             if description expense = '''' then ''-'' else description expense]) xs"

definition reportCommands :: "PdfEnv \<Rightarrow> State \<Rightarrow> pdfCommand list" where
  "reportCommands env s =
     [SetFontSize 24, SetFont '''' ''bold'',
      Text ''Expense Tracker Report'' (pageWidth env / 2) 20 ''center'',
      SetFontSize 10, SetFont '''' ''normal'',
      Text (''Report Generated: '' @ localeDate env) (pageWidth env / 2) 28 ''center'']
     @ (if filterCategory s \<noteq> ''All''
        then [Text (''Category: '' @ filterCategory s) (pageWidth env / 2) 34 ''center'']
        else [])
     @ [AutoTable [[''Date'', ''Category'', ''Amount (INR)'', ''Description'']]
          (tableData (filteredExpenses s)) (if filterCategory s \<noteq> ''All'' then 42 else 36),
        SetFont '''' ''bold'', SetFontSize 12,
        Text (''Total Amount: INR '' @ toFixed2 (totalAmount s)) (pageWidth env / 2)
          (finalY env + 10) ''center'',
        SetFontSize 8, SetFont '''' ''normal'',
        Text ''This is an automatically generated report from Expense Tracker''
          (pageWidth env / 2) (pageHeight env - 10) ''center'']"

text \<open>
  \<^verbatim>\<open>downloadPDF\<close>. With nothing in the view it alerts and returns before a document
  exists. Otherwise the document is built and saved; an exception anywhere in that is
  caught, logged and reported, and nothing is saved.
\<close>

definition downloadPDF :: "PdfEnv \<Rightarrow> State \<Rightarrow> State" where
  "downloadPDF env s =
     (if length (filteredExpenses s) = 0 then alert ''No expenses to download'' s
      else if throws env
      then alert ''Failed to generate PDF''
             (s\<lparr>consoleErrors := consoleErrors s @ [''Error generating PDF:'']\<rparr>)
      else s\<lparr>downloads := downloads s @
               [\<lparr>fileName = ''expense-report-'' @ isoDate env @ ''.pdf'',
                 commands = reportCommands env s\<rparr>]\<rparr>)"

subsection \<open>The form fields\<close>

text \<open>
  The amount field is an \<^verbatim>\<open>input\<close> of type \<^verbatim>\<open>number\<close>. What it hands to
  \<^verbatim>\<open>onChange\<close> as its value is the entered text when that is a valid floating-point
  number (an optional minus, digits with an optional fraction or a fraction alone, an
  optional exponent) whose value is finite, and the empty text otherwise.
\<close>

fun optionalMinus :: "string \<Rightarrow> string" where
  "optionalMinus [] = []"
| "optionalMinus (c # cs) = (if c = CHR ''-'' then cs else c # cs)"

definition validExponent :: "string \<Rightarrow> bool" where
  "validExponent r =
     (case r of
        [] \<Rightarrow> True
      | c # cs \<Rightarrow>
          (c = CHR ''e'' \<or> c = CHR ''E'')
          \<and> (let ds = snd (signOf cs) in 0 < length ds \<and> dropWhile isDigit ds = []))"

definition validFloatingPointNumber :: "string \<Rightarrow> bool" where
  "validFloatingPointNumber v =
     (let s = optionalMinus v; intDigits = takeWhile isDigit s
      in case dropWhile isDigit s of
           [] \<Rightarrow> 0 < length intDigits
         | c # cs \<Rightarrow>
             if c = CHR ''.''
             then 0 < length (takeWhile isDigit cs) \<and> validExponent (dropWhile isDigit cs)
             else 0 < length intDigits \<and> validExponent (c # cs))"

definition numberInputValue :: "string \<Rightarrow> string" where
  "numberInputValue v = (if validFloatingPointNumber v \<and> isFinite (parseFloat v) then v else '''')"

text \<open>
  The value of the field called \<open>name\<close> after \<open>v\<close> was entered into it. The date
  picker, the category select and the description field are taken to hand on any text.
\<close>

definition fieldValue :: "string \<Rightarrow> string \<Rightarrow> string" where
  "fieldValue name v = (if name = ''amount'' then numberInputValue v else v)"

subsection \<open>Sequences of user actions\<close>

text \<open>
  \<open>InputChange name v\<close>: the user entered \<open>v\<close> into the field called \<open>name\<close>, and
  \<^verbatim>\<open>handleInputChange\<close> ran with the field's value. The other events are the clicks
  and the filter selection, with what the handler reads from the platform.
\<close>

datatype event =
  InputChange string string
  | SetFilter string
  | AddExpense nat string
  | DeleteExpense string
  | DeleteAll bool
  | DeleteByCategory bool
  | DownloadPDF PdfEnv

fun step :: "State \<Rightarrow> event \<Rightarrow> State" where
  "step s (InputChange name v) = handleInputChange name (fieldValue name v) s"
| "step s (SetFilter v) = setFilterCategory v s"
| "step s (AddExpense now today) = handleAddExpense now today s"
| "step s (DeleteExpense i) = handleDeleteExpense i s"
| "step s (DeleteAll answer) = handleDeleteAll answer s"
| "step s (DeleteByCategory answer) = handleDeleteByCategory answer s"
| "step s (DownloadPDF env) = downloadPDF env s"

definition run :: "State \<Rightarrow> event list \<Rightarrow> State" where
  "run s evs = foldl step s evs"

text \<open>The state after mounting with nothing stored.\<close>

definition initialState :: "string \<Rightarrow> State" where
  "initialState today =
     \<lparr>expenses = [], filterCategory = ''All'', formData = defaultForm today,
      localStorage = Some (saveExpenses []), alerts = [], confirms = [], consoleErrors = [],
      downloads = []\<rparr>"

subsection \<open>What holds of the store after every action\<close>

text \<open>
  Every amount in the collection is finite, the form's amount text is empty or reads as a
  finite number, and the stored item is the collection as last saved.
\<close>

definition storeInvariant :: "State \<Rightarrow> bool" where
  "storeInvariant s =
     (list_all (\<lambda>expense. isFinite (amount expense)) (expenses s)
      \<and> (FormData.amount (formData s) = ''''
           \<or> isFinite (parseFloat (FormData.amount (formData s))))
      \<and> localStorage s = Some (saveExpenses (expenses s)))"

subsection \<open>Sample inputs\<close>

text \<open>The mounted component after the amount field was filled in.\<close>

definition filledState :: State where
  "filledState = handleInputChange ''amount'' ''250.50'' (initialState ''2024-01-05'')"

text \<open>
  Three expenses, newest first: Food 100, then Transport 50, then Food 75 were added.
  \<open>sampleState\<close> holds them with a given filter selection.
\<close>

definition sampleExpenses :: "Expense list" where
  "sampleExpenses =
     [\<lparr>id' = ''1704412800003'', date = ''2024-01-07'', category = ''Food'',
       amount = Finite 75, description = ''''\<rparr>,
      \<lparr>id' = ''1704412800002'', date = ''2024-01-06'', category = ''Transport'',
       amount = Finite 50, description = ''bus''\<rparr>,
      \<lparr>id' = ''1704412800001'', date = ''2024-01-05'', category = ''Food'',
       amount = Finite 100, description = ''lunch''\<rparr>]"

definition sampleState :: "string \<Rightarrow> State" where
  "sampleState selection =
     setFilterCategory selection (setExpenses sampleExpenses (initialState ''2024-01-08''))"

text \<open>A collection in which two entries have the same id.\<close>

definition duplicateIdExpenses :: "Expense list" where
  "duplicateIdExpenses =
     [\<lparr>id' = ''1704412800000'', date = ''2024-01-05'', category = ''Food'',
       amount = Finite 20, description = ''second''\<rparr>,
      \<lparr>id' = ''1704412800007'', date = ''2024-01-05'', category = ''Health'',
       amount = Finite 30, description = ''''\<rparr>,
      \<lparr>id' = ''1704412800000'', date = ''2024-01-05'', category = ''Food'',
       amount = Finite 10, description = ''first''\<rparr>]"

text \<open>A page of 210 by 297 units on which the table ends at 60.\<close>

definition sampleEnv :: PdfEnv where
  "sampleEnv = \<lparr>pageWidth = 210, pageHeight = 297, finalY = 60, localeDate = ''1/8/2024'',
     isoDate = ''2024-01-08'', throws = False\<rparr>"

text \<open>The mounted component after \<^verbatim>\<open>-5\<close> was typed into the amount field.\<close>

definition negativeAmountState :: State where
  "negativeAmountState = handleInputChange ''amount'' ''-5'' (initialState ''2024-01-05'')"

text \<open>
  Two adds, the second at the clock reading of the first.
\<close>

definition sameMillisecondEvents :: "event list" where
  "sameMillisecondEvents =
     [InputChange ''amount'' ''10'', AddExpense 1704412800000 ''2024-01-05'',
      InputChange ''amount'' ''20'', AddExpense 1704412800000 ''2024-01-05'']"

text \<open>
  Three attempts to add: with \<^verbatim>\<open>abc\<close> entered as the amount, with
  \<^verbatim>\<open>1e400\<close>, and with \<^verbatim>\<open>250.50\<close>.
\<close>

definition enteredAmountsEvents :: "event list" where
  "enteredAmountsEvents =
     [InputChange ''amount'' ''abc'', AddExpense 1704412800000 ''2024-01-05'',
      InputChange ''amount'' ''1e400'', AddExpense 1704412800001 ''2024-01-05'',
      InputChange ''description'' ''rent'',
      InputChange ''amount'' ''250.50'', AddExpense 1704412800002 ''2024-01-05'']"

subsection \<open>Clock readings that are new as ids\<close>

text \<open>
  Along a sequence of actions from \<open>s\<close>, the clock reading of every add, written in
  decimal, is not the id of an entry that the collection holds at that moment.
\<close>

fun freshClock :: "State \<Rightarrow> event list \<Rightarrow> bool" where
  "freshClock s [] = True"
| "freshClock s (ev # evs) =
     ((case ev of
         AddExpense now today \<Rightarrow> toString now \<notin> set (map id' (expenses s))
       | _ \<Rightarrow> True)
      \<and> freshClock (step s ev) evs)"

text \<open>The clock readings of the adds in a sequence of actions, in order.\<close>

fun addClocks :: "event list \<Rightarrow> nat list" where
  "addClocks [] = []"
| "addClocks (AddExpense now today # evs) = now # addClocks evs"
| "addClocks (ev # evs) = addClocks evs"

section \<open>Properties\<close>

subsection \<open>The rounding to a double\<close>

text \<open>
  \<open>floorLog2\<close> is the binary exponent, and a whole number below \<open>2\<^sup>5\<^sup>3\<close> in
  magnitude is a double: rounding leaves it as it is, and so does adding two whole
  numbers whose sum is below \<open>2\<^sup>5\<^sup>3\<close>.
\<close>

lemma natLog2_bounds: "0 < n \<Longrightarrow> 2 ^ natLog2 n \<le> n \<and> n < 2 ^ Suc (natLog2 n)"
proof (induction n rule: natLog2.induct)
  case (1 n)
  show ?case
  proof (cases "n < 2")
    case True
    with "1.prems" show ?thesis by (simp add: natLog2.simps [of n])
  next
    case False
    then have "0 < n div 2" by simp
    with "1.IH" False have "2 ^ natLog2 (n div 2) \<le> n div 2 \<and> n div 2 < 2 ^ Suc (natLog2 (n div 2))"
      by simp
    with False show ?thesis
      by (simp add: natLog2.simps [of n]) linarith
  qed
qed

lemma rat_pow2_le: "2 ^ k \<le> (n::nat) \<Longrightarrow> (2::rat) ^ k \<le> rat_of_nat n"
proof -
  assume "2 ^ k \<le> n"
  then have "rat_of_nat (2 ^ k) \<le> rat_of_nat n" by (simp only: of_nat_le_iff)
  then show ?thesis by simp
qed

lemma rat_le_pow2: "(n::nat) \<le> 2 ^ k \<Longrightarrow> rat_of_nat n \<le> (2::rat) ^ k"
proof -
  assume "n \<le> 2 ^ k"
  then have "rat_of_nat n \<le> rat_of_nat (2 ^ k)" by (simp only: of_nat_le_iff)
  then show ?thesis by simp
qed

lemma floorLog2_bounds_ge1:
  assumes "1 \<le> a"
  shows "pow2 (floorLog2 a) \<le> a \<and> a < pow2 (floorLog2 a + 1)"
proof -
  define n where "n = nat \<lfloor>a\<rfloor>"
  from assms have "1 \<le> \<lfloor>a\<rfloor>" by simp
  then have n0: "0 < n" by (simp add: n_def)
  have "rat_of_int \<lfloor>a\<rfloor> \<le> a" "a < rat_of_int \<lfloor>a\<rfloor> + 1" by linarith+
  moreover have "rat_of_nat n = rat_of_int \<lfloor>a\<rfloor>"
    using \<open>1 \<le> \<lfloor>a\<rfloor>\<close> by (simp add: n_def)
  ultimately have n: "rat_of_nat n \<le> a" "a < rat_of_nat n + 1" by simp_all
  from natLog2_bounds [OF n0] have nb: "2 ^ natLog2 n \<le> n" "n + 1 \<le> 2 ^ Suc (natLog2 n)"
    by simp_all
  have low: "(2::rat) ^ natLog2 n \<le> rat_of_nat n"
    using nb(1) by (rule rat_pow2_le)
  have "rat_of_nat (n + 1) \<le> 2 ^ Suc (natLog2 n)"
    using nb(2) by (rule rat_le_pow2)
  then have up: "rat_of_nat n + 1 \<le> 2 ^ Suc (natLog2 n)"
    by (simp only: of_nat_add of_nat_1)
  from low n(1) have "(2::rat) ^ natLog2 n \<le> a" by (rule order_trans)
  moreover from n(2) up have "a < 2 ^ Suc (natLog2 n)" by (rule less_le_trans)
  ultimately have "(2::rat) ^ natLog2 n \<le> a" "a < 2 ^ Suc (natLog2 n)" .
  with assms show ?thesis
    by (simp add: floorLog2_def pow2_def n_def [symmetric] nat_add_distrib)
qed

lemma pow2_neg: "pow2 (- int k) = 1 / 2 ^ k"
  by (cases k) (simp_all add: pow2_def nat_add_distrib)

lemma floorLog2_bounds_lt1:
  assumes "0 < a" "a < 1"
  shows "pow2 (floorLog2 a) \<le> a \<and> a < pow2 (floorLog2 a + 1)"
proof -
  define c where "c = nat \<lceil>1 / a\<rceil>"
  define k where "k = natLog2 (c - 1)"
  from assms have b: "1 < 1 / a" by simp
  then have two: "2 \<le> \<lceil>1 / a\<rceil>" by linarith
  then have "nat 2 \<le> nat \<lceil>1 / a\<rceil>" by (rule nat_mono)
  then have c2: "2 \<le> c" by (simp only: c_def nat_numeral)
  from two have "0 \<le> \<lceil>1 / a\<rceil>" by linarith
  then have ceq: "rat_of_nat c = rat_of_int \<lceil>1 / a\<rceil>"
    unfolding c_def by (simp only: of_nat_nat)
  have "1 / a \<le> rat_of_int \<lceil>1 / a\<rceil>" "rat_of_int \<lceil>1 / a\<rceil> - 1 < 1 / a" by linarith+
  with ceq have c: "1 / a \<le> rat_of_nat c" "rat_of_nat c - 1 < 1 / a" by simp_all
  from c2 have "0 < c - 1" by simp
  from natLog2_bounds [OF this] have kb: "2 ^ k \<le> c - 1" "c - 1 < 2 ^ Suc k"
    unfolding k_def by blast+
  from kb(2) c2 have kc: "c \<le> 2 ^ Suc k" by arith
  have "(2::rat) ^ k \<le> rat_of_nat (c - 1)"
    using kb(1) by (rule rat_pow2_le)
  moreover have "rat_of_nat (c - 1) = rat_of_nat c - 1"
    using c2 by simp
  ultimately have "(2::rat) ^ k \<le> rat_of_nat c - 1" by (simp only:)
  from this c(2) have low: "(2::rat) ^ k < 1 / a" by (rule le_less_trans)
  have "rat_of_nat c \<le> 2 ^ Suc k"
    using kc by (rule rat_le_pow2)
  with c(1) have up: "1 / a \<le> 2 ^ Suc k" by (rule order_trans)
  have "(0::rat) < 2 ^ Suc k" "(0::rat) < 2 ^ k" by simp_all
  with up low assms have "1 / 2 ^ Suc k \<le> a" "a < 1 / 2 ^ k"
    by (simp_all add: field_simps)
  moreover have "floorLog2 a = - int (Suc k)"
    using assms by (simp add: floorLog2_def c_def k_def)
  moreover have "- int (Suc k) + 1 = - int k" by simp
  ultimately show ?thesis
    by (simp only: pow2_neg)
qed

lemma floorLog2_bounds:
  "0 < a \<Longrightarrow> pow2 (floorLog2 a) \<le> a \<and> a < pow2 (floorLog2 a + 1)"
  using floorLog2_bounds_ge1 [of a] floorLog2_bounds_lt1 [of a] by (cases "1 \<le> a") simp_all

lemma roundHalfEven_of_int: "roundHalfEven (rat_of_int z) = z"
  by (simp add: roundHalfEven_def)

lemma toDouble_of_int:
  assumes "\<bar>m\<bar> < 2 ^ 53"
  shows "toDouble (rat_of_int m) = Finite (rat_of_int m)"
proof (cases "m = 0")
  case True
  then show ?thesis by (simp add: toDouble_def)
next
  case False
  define a where "a = \<bar>rat_of_int m\<bar>"
  define e where "e = floorLog2 a"
  define j where "j = nat (52 - e)"
  from False have "1 \<le> \<bar>m\<bar>" by linarith
  then have "rat_of_int 1 \<le> rat_of_int \<bar>m\<bar>" by (simp only: of_int_le_iff)
  then have a1: "1 \<le> a" by (simp add: a_def)
  from assms have "rat_of_int \<bar>m\<bar> < rat_of_int (2 ^ 53)" by (simp only: of_int_less_iff)
  then have a53: "a < 2 ^ 53" by (simp add: a_def)
  have e0: "0 \<le> e" using a1 by (simp add: e_def floorLog2_def)
  from floorLog2_bounds [of a] a1 have "pow2 e \<le> a" by (simp add: e_def)
  with e0 a53 have lt: "(2::rat) ^ nat e < 2 ^ 53" by (simp add: pow2_def)
  have "(1::rat) < 2" by simp
  from this lt have "nat e < 53" by (rule power_less_imp_less_exp)
  with e0 have e52: "e \<le> 52" by simp
  then have ulp: "pow2 (e - 52) = 1 / 2 ^ j"
    using pow2_neg [of j] by (simp add: j_def)
  have big: "\<not> 2 ^ 1024 - 2 ^ 970 \<le> a"
  proof -
    have "(2::rat) ^ 53 \<le> 2 ^ 1024 - 2 ^ 970" by simp
    with a53 show ?thesis by simp
  qed
  have small: "\<not> a < 1 / 2 ^ 1022"
  proof -
    have "(1::rat) / 2 ^ 1022 \<le> 1" by simp
    with a1 show ?thesis by simp
  qed
  have "rat_of_int m / (1 / 2 ^ j) = rat_of_int (m * 2 ^ j)" by simp
  then have "roundHalfEven (rat_of_int m / (1 / 2 ^ j)) = m * 2 ^ j"
    by (simp only: roundHalfEven_of_int)
  then have "rat_of_int (roundHalfEven (rat_of_int m / (1 / 2 ^ j))) * (1 / 2 ^ j) = rat_of_int m"
    by simp
  with False big small ulp show ?thesis
    by (simp add: toDouble_def a_def [symmetric] e_def [symmetric] Let_def)
qed

lemma num_add_whole:
  "\<bar>m + n\<bar> < 2 ^ 53 \<Longrightarrow>
     num_add (Finite (rat_of_int m)) (Finite (rat_of_int n)) = Finite (rat_of_int (m + n))"
  using toDouble_of_int [of "m + n"] by simp

subsection \<open>Evaluating the number and text functions\<close>

text \<open>
  Facts that let the simplifier run the rounding, the parsing and the printing on
  concrete inputs, and their values on the inputs used below.
\<close>

lemma floor_numeral_quotient:
  "\<lfloor>(numeral a :: rat) / numeral b\<rfloor> = numeral a div numeral b"
  "\<lfloor>- (numeral a :: rat) / numeral b\<rfloor> = - numeral a div numeral b"
  "\<lfloor>- ((numeral a :: rat) / numeral b)\<rfloor> = - numeral a div numeral b"
  "\<lfloor>(1 :: rat) / numeral b\<rfloor> = 1 div numeral b"
  using floor_divide_of_int_eq [of "numeral a" "numeral b", where ?'a = rat]
    floor_divide_of_int_eq [of "- numeral a" "numeral b", where ?'a = rat]
    floor_divide_of_int_eq [of 1 "numeral b", where ?'a = rat]
  by simp_all

lemma ceiling_numeral_quotient:
  "\<lceil>(numeral a :: rat) / numeral b\<rceil> = - (- numeral a div numeral b)"
  using floor_numeral_quotient(2) [of a b] by (simp add: ceiling_def)

lemma shortestDigits_numeral:
  "shortestDigits x d k (numeral f) =
     (case closest x k (candidates x k d @ candidates x k (d + 1)) of
        Some c \<Rightarrow> c
      | None \<Rightarrow> shortestDigits x d (k + 1) (pred_numeral f))"
  by (simp add: numeral_eq_Suc)

lemmas toDouble_eval = toDouble_def pow2_def floorLog2_def roundHalfEven_def natLog2.simps Let_def
  floor_numeral_quotient ceiling_numeral_quotient

lemmas parseFloat_eval = parseFloat_def isWhiteSpace_def isDigit_def digitsValue_def
  digitValue_def pow10_def toDouble_eval

lemmas toFixed2_eval = toDouble_eval exponentText_def candidates_def distance_def
  toString.simps digitChar_def digitCount.simps shortestDigits_numeral

lemmas numberInput_eval = fieldValue_def numberInputValue_def validFloatingPointNumber_def
  validExponent_def parseFloat_eval

lemma parseFloat_samples:
  "parseFloat ''250.50'' = Finite (501 / 2)"
  "parseFloat ''-5'' = Finite (- 5)"
  "parseFloat ''10'' = Finite 10"
  "parseFloat ''20'' = Finite 20"
  "parseFloat ''1e400'' = PosInfinity"
  "parseFloat ''abc'' = NaN"
  "parseFloat ''0.1'' = Finite (3602879701896397 / 36028797018963968)"
  "parseFloat (CHR 0xA0 # ''12'') = Finite 12"
  by (simp_all add: parseFloat_eval)

lemma fieldValue_samples:
  "fieldValue ''amount'' ''250.50'' = ''250.50''"
  "fieldValue ''amount'' ''-5'' = ''-5''"
  "fieldValue ''amount'' ''10'' = ''10''"
  "fieldValue ''amount'' ''20'' = ''20''"
  "fieldValue ''amount'' ''1e400'' = ''''"
  "fieldValue ''amount'' ''abc'' = ''''"
  "fieldValue ''amount'' ''5.'' = ''''"
  "fieldValue ''amount'' ''.5e-3'' = ''.5e-3''"
  "fieldValue ''description'' ''rent'' = ''rent''"
  by (simp_all add: numberInput_eval)

lemma num_add_samples:
  "num_add (Finite 0) (Finite 75) = Finite 75"
  "num_add (Finite 75) (Finite 50) = Finite 125"
  "num_add (Finite 125) (Finite 100) = Finite 225"
  "num_add (Finite (3602879701896397 / 36028797018963968)) (Finite (3602879701896397 / 18014398509481984))
     = Finite (1351079888211149 / 4503599627370496)"
  by (simp_all add: toDouble_eval)

lemma toFixed2_samples:
  "toFixed2 (Finite (501 / 2)) = ''250.50''"
  "toFixed2 (Finite (1131529406376837 / 1125899906842624)) = ''1.00''"
  "toFixed2 (Finite (10 ^ 21)) = ''1e+21''"
  "toFixed2 (Finite (- (15 * 10 ^ 20))) = ''-1.5e+21''"
  by (simp_all add: toFixed2_eval)

lemma toString_clocks:
  "toString 1704412800000 = ''1704412800000''"
  "toString 1704412800001 = ''1704412800001''"
  "toString 1704412800002 = ''1704412800002''"
  by (simp_all add: toString.simps digitChar_def)

subsection \<open>Adding an expense\<close>

text \<open>
  C1. When the form's date, category and amount are all non-empty, adding succeeds: the
  collection is the new expense (the clock reading as id, the form's date, category and
  description, the parsed amount) followed by the previous entries in their order, so it
  is one longer; the form is reset to today's date, \<^verbatim>\<open>Food\<close>, an empty amount and
  an empty description; nothing is alerted and the new collection is what is stored.
\<close>

theorem add_valid_input_prepends:
  assumes "FormData.date (formData s) \<noteq> ''''"
    and "FormData.category (formData s) \<noteq> ''''"
    and "FormData.amount (formData s) \<noteq> ''''"
  shows "expenses (handleAddExpense now today s) =
           \<lparr>id' = toString now, date = FormData.date (formData s),
            category = FormData.category (formData s),
            amount = parseFloat (FormData.amount (formData s)),
            description = FormData.description (formData s)\<rparr> # expenses s
         \<and> length (expenses (handleAddExpense now today s)) = length (expenses s) + 1
         \<and> formData (handleAddExpense now today s) =
             \<lparr>FormData.date = today, FormData.category = ''Food'', FormData.amount = '''',
              FormData.description = ''''\<rparr>
         \<and> alerts (handleAddExpense now today s) = alerts s
         \<and> localStorage (handleAddExpense now today s) =
             Some (saveExpenses (expenses (handleAddExpense now today s)))"
  using assms
  by (simp add: handleAddExpense_def setExpenses_def newExpense_def defaultForm_def)

theorem add_valid_input_prepends_witness:
  "FormData.date (formData filledState) \<noteq> ''''
   \<and> FormData.category (formData filledState) \<noteq> ''''
   \<and> FormData.amount (formData filledState) \<noteq> ''''
   \<and> expenses (handleAddExpense 1704412800000 ''2024-01-06'' filledState) =
       [\<lparr>id' = ''1704412800000'', date = ''2024-01-05'', category = ''Food'',
         amount = Finite (501 / 2), description = ''''\<rparr>]
   \<and> formData (handleAddExpense 1704412800000 ''2024-01-06'' filledState) =
       \<lparr>FormData.date = ''2024-01-06'', FormData.category = ''Food'', FormData.amount = '''',
        FormData.description = ''''\<rparr>"
proof -
  have f: "formData filledState =
      \<lparr>FormData.date = ''2024-01-05'', FormData.category = ''Food'',
       FormData.amount = ''250.50'', FormData.description = ''''\<rparr>"
    by (simp add: filledState_def initialState_def defaultForm_def handleInputChange_def)
  have e: "expenses filledState = []"
    by (simp add: filledState_def initialState_def handleInputChange_def)
  have p: "parseFloat ''250.50'' = Finite (501 / 2)"
    by (simp add: parseFloat_samples)
  have t: "toString 1704412800000 = ''1704412800000''"
    by (simp add: toString_clocks)
  show ?thesis
    using add_valid_input_prepends [of filledState 1704412800000 "''2024-01-06''"]
    by (simp add: f e p t)
qed

text \<open>
  C2. When the form's date, category or amount is empty, adding is rejected: the user is
  alerted, and the collection, the stored item and the form are what they were.
\<close>

theorem add_invalid_input_rejected:
  assumes "FormData.date (formData s) = '''' \<or> FormData.category (formData s) = ''''
           \<or> FormData.amount (formData s) = ''''"
  shows "handleAddExpense now today s =
           s\<lparr>alerts := alerts s @ [''Please fill in all required fields'']\<rparr>
         \<and> expenses (handleAddExpense now today s) = expenses s
         \<and> localStorage (handleAddExpense now today s) = localStorage s
         \<and> formData (handleAddExpense now today s) = formData s"
  using assms by (auto simp add: handleAddExpense_def alert_def)

theorem add_invalid_input_rejected_witness:
  "FormData.amount (formData (initialState ''2024-01-05'')) = ''''
   \<and> expenses (handleAddExpense 1704412800000 ''2024-01-05'' (initialState ''2024-01-05'')) = []
   \<and> localStorage (handleAddExpense 1704412800000 ''2024-01-05'' (initialState ''2024-01-05''))
       = Some (JsonText (JArray []))
   \<and> alerts (handleAddExpense 1704412800000 ''2024-01-05'' (initialState ''2024-01-05''))
       = [''Please fill in all required fields'']"
proof -
  have a: "FormData.amount (formData (initialState ''2024-01-05'')) = ''''"
    by (simp add: initialState_def defaultForm_def)
  have i: "expenses (initialState ''2024-01-05'') = []
           \<and> localStorage (initialState ''2024-01-05'') = Some (JsonText (JArray []))
           \<and> alerts (initialState ''2024-01-05'') = []"
    by (simp add: initialState_def saveExpenses_def expensesValue_def)
  show ?thesis
    using add_invalid_input_rejected [of "initialState ''2024-01-05''" 1704412800000 "''2024-01-05''"] a i
    by simp
qed

subsection \<open>Deleting\<close>

lemma sampleState_fields:
  "expenses (sampleState c) = sampleExpenses" "filterCategory (sampleState c) = c"
  "alerts (sampleState c) = []" "confirms (sampleState c) = []" "downloads (sampleState c) = []"
  by (simp_all add: sampleState_def setFilterCategory_def setExpenses_def initialState_def)

text \<open>
  C3. Deleting by category. With the selection \<^verbatim>\<open>All\<close> the user is alerted and
  nothing is removed. With a specific category that no entry has, the user is alerted
  and nothing is removed. Otherwise the user is asked to confirm; once confirmed, the
  collection is exactly the entries whose category differs from the selection, in their
  original order, and when the prompt is declined the collection stays as it was.
\<close>

theorem delete_by_category_cases:
  "(filterCategory s = ''All'' \<longrightarrow>
      handleDeleteByCategory answer s = alert ''Please select a specific category to delete'' s
      \<and> expenses (handleDeleteByCategory answer s) = expenses s
      \<and> localStorage (handleDeleteByCategory answer s) = localStorage s)
   \<and> (filterCategory s \<noteq> ''All''
        \<and> filter (\<lambda>expense. category expense = filterCategory s) (expenses s) = [] \<longrightarrow>
      handleDeleteByCategory answer s
        = alert (''No expenses found in category: '' @ filterCategory s) s
      \<and> expenses (handleDeleteByCategory answer s) = expenses s
      \<and> localStorage (handleDeleteByCategory answer s) = localStorage s)
   \<and> (filterCategory s \<noteq> ''All''
        \<and> filter (\<lambda>expense. category expense = filterCategory s) (expenses s) \<noteq> [] \<longrightarrow>
      expenses (handleDeleteByCategory True s)
        = filter (\<lambda>expense. category expense \<noteq> filterCategory s) (expenses s)
      \<and> alerts (handleDeleteByCategory True s) = alerts s
      \<and> length (confirms (handleDeleteByCategory True s)) = length (confirms s) + 1
      \<and> expenses (handleDeleteByCategory False s) = expenses s)"
  by (simp add: handleDeleteByCategory_def alert_def confirm_def setExpenses_def Let_def)

theorem delete_by_category_cases_witness:
  "expenses (handleDeleteByCategory True (sampleState ''All'')) = sampleExpenses
   \<and> alerts (handleDeleteByCategory True (sampleState ''All''))
       = [''Please select a specific category to delete'']
   \<and> expenses (handleDeleteByCategory True (sampleState ''Health'')) = sampleExpenses
   \<and> alerts (handleDeleteByCategory True (sampleState ''Health''))
       = [''No expenses found in category: Health'']
   \<and> expenses (handleDeleteByCategory True (sampleState ''Food''))
       = [\<lparr>id' = ''1704412800002'', date = ''2024-01-06'', category = ''Transport'',
           amount = Finite 50, description = ''bus''\<rparr>]"
  using delete_by_category_cases [of "sampleState ''All''" True]
    delete_by_category_cases [of "sampleState ''Health''" True]
    delete_by_category_cases [of "sampleState ''Food''" True]
  by (simp add: sampleState_fields alert_def sampleExpenses_def)

lemma find_filter_none: "find (\<lambda>e. f e = i) (filter (\<lambda>e. f e \<noteq> i) xs) = None"
  by (induction xs) auto

lemma filter_absent_id:
  "i \<notin> set (map id' xs) \<Longrightarrow> filter (\<lambda>expense. id' expense \<noteq> i) xs = xs"
  by (induction xs) auto

text \<open>
  C4. Deleting by id. Afterwards looking the id up finds nothing; when no entry had the
  id the collection is unchanged; and when exactly one entry has it, that entry is taken
  out and the entries before and after it stay, in their order.
\<close>

theorem delete_expense_removes_id:
  "find (\<lambda>expense. id' expense = i) (expenses (handleDeleteExpense i s)) = None
   \<and> (i \<notin> set (map id' (expenses s)) \<longrightarrow> expenses (handleDeleteExpense i s) = expenses s)
   \<and> (expenses s = ys @ e # zs \<and> id' e = i \<and> i \<notin> set (map id' ys) \<and> i \<notin> set (map id' zs)
        \<longrightarrow> expenses (handleDeleteExpense i s) = ys @ zs)"
proof -
  have sel: "expenses (handleDeleteExpense i s) = filter (\<lambda>expense. id' expense \<noteq> i) (expenses s)"
    by (simp add: handleDeleteExpense_def setExpenses_def)
  show ?thesis
    by (auto simp add: sel find_filter_none filter_absent_id simp del: set_map)
qed

theorem delete_expense_removes_id_witness:
  "find (\<lambda>expense. id' expense = ''1704412800002'')
       (expenses (handleDeleteExpense ''1704412800002'' (sampleState ''All''))) = None
   \<and> ''1704412800009'' \<notin> set (map id' (expenses (sampleState ''All'')))
   \<and> expenses (handleDeleteExpense ''1704412800009'' (sampleState ''All'')) = sampleExpenses
   \<and> expenses (handleDeleteExpense ''1704412800002'' (sampleState ''All''))
       = [hd sampleExpenses, last sampleExpenses]"
  using delete_expense_removes_id [of "''1704412800002''" "sampleState ''All''"
      "[hd sampleExpenses]" "hd (tl sampleExpenses)" "[last sampleExpenses]"]
    delete_expense_removes_id [of "''1704412800009''" "sampleState ''All''"]
  by (simp add: sampleState_fields sampleExpenses_def)

text \<open>
  C10. Deleting by id removes every entry with that id, not only the first: the
  collection afterwards is exactly the entries with a different id, in their original
  order, so none with the id remains and every other entry does.
\<close>

theorem delete_expense_removes_every_match:
  "expenses (handleDeleteExpense i s) = filter (\<lambda>expense. id' expense \<noteq> i) (expenses s)
   \<and> (\<forall>expense \<in> set (expenses (handleDeleteExpense i s)). id' expense \<noteq> i)
   \<and> (\<forall>expense \<in> set (expenses s).
         id' expense \<noteq> i \<longrightarrow> expense \<in> set (expenses (handleDeleteExpense i s)))"
  by (simp add: handleDeleteExpense_def setExpenses_def)

theorem delete_expense_removes_every_match_witness:
  "length (filter (\<lambda>expense. id' expense = ''1704412800000'') duplicateIdExpenses) = 2
   \<and> expenses (handleDeleteExpense ''1704412800000''
         (setExpenses duplicateIdExpenses (initialState ''2024-01-05'')))
       = [\<lparr>id' = ''1704412800007'', date = ''2024-01-05'', category = ''Health'',
           amount = Finite 30, description = ''''\<rparr>]"
  using delete_expense_removes_every_match
    [of "''1704412800000''" "setExpenses duplicateIdExpenses (initialState ''2024-01-05'')"]
  by (simp add: setExpenses_def duplicateIdExpenses_def)

subsection \<open>The filtered view and its total\<close>

text \<open>
  C5. With the selection \<^verbatim>\<open>All\<close> the filtered view is the whole collection in
  its order and the total is the sum of all amounts, added from 0 in that order; whenever
  the filtered view is empty the total is 0.
\<close>

theorem total_of_all_and_of_empty_view:
  "(filterCategory s = ''All'' \<longrightarrow>
      filteredExpenses s = expenses s
      \<and> totalAmount s = foldl num_add (Finite 0) (map amount (expenses s)))
   \<and> (filteredExpenses s = [] \<longrightarrow> totalAmount s = Finite 0)"
  by (simp add: filteredExpenses_def totalAmount_def foldl_map)

theorem total_of_all_and_of_empty_view_witness:
  "filterCategory (sampleState ''All'') = ''All''
   \<and> filteredExpenses (sampleState ''All'') = sampleExpenses
   \<and> totalAmount (sampleState ''All'') = Finite 225
   \<and> filteredExpenses (sampleState ''Health'') = []
   \<and> totalAmount (sampleState ''Health'') = Finite 0"
proof -
  have empty: "filteredExpenses (sampleState ''Health'') = []"
    by (simp add: filteredExpenses_def sampleState_fields sampleExpenses_def)
  show ?thesis
    using total_of_all_and_of_empty_view [of "sampleState ''All''"]
      total_of_all_and_of_empty_view [of "sampleState ''Health''"] empty
    by (simp add: sampleState_fields sampleExpenses_def num_add_samples del: num_add.simps)
qed

subsection \<open>Exporting the report\<close>

text \<open>
  C9. With an empty filtered view the export is rejected: the user is alerted, no file
  is saved and nothing is logged; the collection, the stored item and the filter are
  unchanged.
\<close>

theorem export_of_empty_view_rejected:
  assumes "filteredExpenses s = []"
  shows "downloadPDF env s = alert ''No expenses to download'' s
         \<and> alerts (downloadPDF env s) = alerts s @ [''No expenses to download'']
         \<and> downloads (downloadPDF env s) = downloads s
         \<and> consoleErrors (downloadPDF env s) = consoleErrors s
         \<and> expenses (downloadPDF env s) = expenses s
         \<and> localStorage (downloadPDF env s) = localStorage s
         \<and> filterCategory (downloadPDF env s) = filterCategory s"
  using assms by (simp add: downloadPDF_def alert_def)

theorem export_of_empty_view_rejected_witness:
  "filteredExpenses (sampleState ''Health'') = []
   \<and> alerts (downloadPDF sampleEnv (sampleState ''Health'')) = [''No expenses to download'']
   \<and> downloads (downloadPDF sampleEnv (sampleState ''Health'')) = []
   \<and> expenses (downloadPDF sampleEnv (sampleState ''Health'')) = sampleExpenses
   \<and> filterCategory (downloadPDF sampleEnv (sampleState ''Health'')) = ''Health''"
proof -
  have empty: "filteredExpenses (sampleState ''Health'') = []"
    by (simp add: filteredExpenses_def sampleState_fields sampleExpenses_def)
  show ?thesis
    using export_of_empty_view_rejected [OF empty, of sampleEnv] empty
    by (simp add: sampleState_fields alert_def)
qed

text \<open>
  A row of the report: the amount with two decimals, and a dash for an empty description.
\<close>

lemma tableData_sample:
  "tableData
     [\<lparr>id' = ''1704412800000'', date = ''2024-01-05'', category = ''Food'',
       amount = Finite (501 / 2), description = ''''\<rparr>]
   = [[''2024-01-05'', ''Food'', ''250.50'', ''-'']]"
  by (simp add: tableData_def toFixed2_samples del: toFixed2.simps)

subsection \<open>Persisting and reloading\<close>

lemma numberInputValue_finite:
  "numberInputValue v = '''' \<or> isFinite (parseFloat (numberInputValue v))"
  by (simp add: numberInputValue_def)

lemma step_keeps_storeInvariant:
  assumes "storeInvariant s"
  shows "storeInvariant (step s ev)"
proof (cases ev)
  case (InputChange name v)
  with assms numberInputValue_finite [of v] show ?thesis
    by (auto simp add: storeInvariant_def handleInputChange_def fieldValue_def Let_def)
next
  case (SetFilter v)
  with assms show ?thesis by (simp add: storeInvariant_def setFilterCategory_def)
next
  case (AddExpense now today)
  with assms show ?thesis
    by (auto simp add: storeInvariant_def handleAddExpense_def setExpenses_def alert_def
        newExpense_def defaultForm_def)
next
  case (DeleteExpense i)
  with assms show ?thesis
    by (auto simp add: storeInvariant_def handleDeleteExpense_def setExpenses_def list_all_iff)
next
  case (DeleteAll answer)
  with assms show ?thesis
    by (simp add: storeInvariant_def handleDeleteAll_def setExpenses_def confirm_def Let_def)
next
  case (DeleteByCategory answer)
  with assms show ?thesis
    by (auto simp add: storeInvariant_def handleDeleteByCategory_def setExpenses_def confirm_def
        alert_def Let_def list_all_iff)
next
  case (DownloadPDF env)
  with assms show ?thesis by (simp add: storeInvariant_def downloadPDF_def alert_def)
qed

lemma run_keeps_storeInvariant: "storeInvariant s \<Longrightarrow> storeInvariant (run s evs)"
  unfolding run_def
  by (induction evs arbitrary: s) (simp_all add: step_keeps_storeInvariant)

lemma initialState_storeInvariant: "storeInvariant (initialState today)"
  by (simp add: storeInvariant_def initialState_def defaultForm_def)

lemma reload_expenseValue:
  "JSON_parse (JSON_stringify (expenseValue e)) =
     VObject [(''id'', VString (id' e)), (''date'', VString (date e)),
              (''category'', VString (category e)),
              (''amount'', if isFinite (amount e) then VNumber (amount e) else VNull),
              (''description'', VString (description e))]"
  by (cases "amount e") (simp_all add: expenseValue_def)

lemma roundtrip_expenseValue:
  "isFinite (amount e) \<Longrightarrow> JSON_parse (JSON_stringify (expenseValue e)) = expenseValue e"
  by (simp add: reload_expenseValue) (simp add: expenseValue_def)

lemma roundtrip_expenseValue_iff:
  "JSON_parse (JSON_stringify (expenseValue e)) = expenseValue e \<longleftrightarrow> isFinite (amount e)"
  by (cases "amount e") (simp_all add: expenseValue_def)

lemma reload_saved:
  "loadExpenses (Some (saveExpenses xs)) =
     Loaded (VArray (map (\<lambda>e. JSON_parse (JSON_stringify (expenseValue e))) xs))"
  by (simp add: saveExpenses_def expensesValue_def comp_def)

lemma roundtrip_iff:
  "loadExpenses (Some (saveExpenses xs)) = Loaded (expensesValue xs)
     \<longleftrightarrow> (\<forall>expense \<in> set xs. isFinite (amount expense))"
  by (induction xs) (auto simp add: reload_saved expensesValue_def roundtrip_expenseValue_iff)

lemma expenseValue_inject: "expenseValue a = expenseValue b \<Longrightarrow> a = b"
  by (simp add: expenseValue_def)

lemma expensesValue_inject: "expensesValue ys = expensesValue xs \<Longrightarrow> ys = xs"
  unfolding expensesValue_def
proof (induction ys arbitrary: xs)
  case Nil
  then show ?case by simp
next
  case (Cons y ys)
  then show ?case by (cases xs) (auto dest: expenseValue_inject)
qed

text \<open>
  C8. Persisting the collection and loading it back gives the same entries, field for
  field, in the same order. This holds after every sequence of user actions from a mount
  with nothing stored, and from any state of the store in which the amounts are finite
  and the stored item is the collection; it holds for every collection whose amounts are
  finite numbers, which determines the collection. For any collection at all the reloaded
  sequence has the same length and order and the same id, date, category and description
  in every entry, with the amount handed back unless it is not finite.
\<close>

theorem persist_reload_roundtrip:
  "loadExpenses (localStorage (run (initialState today) evs))
     = Loaded (expensesValue (expenses (run (initialState today) evs)))
   \<and> (storeInvariant s \<longrightarrow>
        loadExpenses (localStorage (run s evs)) = Loaded (expensesValue (expenses (run s evs))))
   \<and> ((\<forall>expense \<in> set xs. isFinite (amount expense)) \<longrightarrow>
        loadExpenses (Some (saveExpenses xs)) = Loaded (expensesValue xs))
   \<and> (expensesValue ys = expensesValue xs \<longrightarrow> ys = xs)
   \<and> loadExpenses (Some (saveExpenses xs)) =
        Loaded (VArray (map (\<lambda>expense.
          VObject [(''id'', VString (id' expense)), (''date'', VString (date expense)),
                   (''category'', VString (category expense)),
                   (''amount'',
                      if isFinite (amount expense) then VNumber (amount expense) else VNull),
                   (''description'', VString (description expense))]) xs))"
proof -
  have reach: "loadExpenses (localStorage (run s' evs)) = Loaded (expensesValue (expenses (run s' evs)))"
    if "storeInvariant s'" for s'
  proof -
    from that have "storeInvariant (run s' evs)" by (rule run_keeps_storeInvariant)
    then show ?thesis
      by (simp add: storeInvariant_def roundtrip_iff list_all_iff)
  qed
  have finite: "(\<forall>expense \<in> set xs. isFinite (amount expense)) \<longrightarrow>
      loadExpenses (Some (saveExpenses xs)) = Loaded (expensesValue xs)"
    by (simp add: roundtrip_iff)
  have every: "loadExpenses (Some (saveExpenses xs)) =
      Loaded (VArray (map (\<lambda>expense.
        VObject [(''id'', VString (id' expense)), (''date'', VString (date expense)),
                 (''category'', VString (category expense)),
                 (''amount'',
                    if isFinite (amount expense) then VNumber (amount expense) else VNull),
                 (''description'', VString (description expense))]) xs))"
    by (simp add: reload_saved reload_expenseValue)
  have inject: "expensesValue ys = expensesValue xs \<longrightarrow> ys = xs"
    by (simp add: expensesValue_inject)
  from reach [OF initialState_storeInvariant] reach [of s] finite inject every
  show ?thesis by blast
qed



lemma enteredAmounts_run:
  "expenses (run (initialState ''2024-01-05'') enteredAmountsEvents) =
     [\<lparr>id' = ''1704412800002'', date = ''2024-01-05'', category = ''Food'',
       amount = Finite (501 / 2), description = ''rent''\<rparr>]"
  "alerts (run (initialState ''2024-01-05'') enteredAmountsEvents) =
     [''Please fill in all required fields'', ''Please fill in all required fields'']"
  by (simp_all add: run_def enteredAmountsEvents_def initialState_def defaultForm_def
      handleInputChange_def handleAddExpense_def setExpenses_def alert_def newExpense_def
      fieldValue_samples parseFloat_samples toString_clocks)

theorem persist_reload_roundtrip_witness:
  "expenses (run (initialState ''2024-01-05'') enteredAmountsEvents) =
     [\<lparr>id' = ''1704412800002'', date = ''2024-01-05'', category = ''Food'',
       amount = Finite (501 / 2), description = ''rent''\<rparr>]
   \<and> loadExpenses (localStorage (run (initialState ''2024-01-05'') enteredAmountsEvents))
       = Loaded (VArray [VObject [(''id'', VString ''1704412800002''),
           (''date'', VString ''2024-01-05''), (''category'', VString ''Food''),
           (''amount'', VNumber (Finite (501 / 2))), (''description'', VString ''rent'')]])
   \<and> map (\<lambda>expense. isFinite (amount expense)) sampleExpenses = [True, True, True]
   \<and> loadExpenses (Some (saveExpenses sampleExpenses)) = Loaded (expensesValue sampleExpenses)"
  using persist_reload_roundtrip [of "''2024-01-05''" enteredAmountsEvents
      "initialState ''2024-01-05''" sampleExpenses sampleExpenses]
  by (simp add: enteredAmounts_run expensesValue_def expenseValue_def)
    (simp add: sampleExpenses_def)

subsection \<open>What the add handler lets into the collection\<close>

text \<open>
  C6. The store's invariant asks for a non-negative amount in every stored expense. The
  add handler checks only that the amount text is not empty: with \<^verbatim>\<open>-5\<close> typed into
  the amount field the add goes through without an alert, and the collection then holds an
  expense whose amount is \<open>-5\<close>.
\<close>

theorem add_accepts_negative_amount:
  "FormData.amount (formData negativeAmountState) = ''-5''
   \<and> expenses (handleAddExpense 1704412800000 ''2024-01-05'' negativeAmountState)
       = [\<lparr>id' = ''1704412800000'', date = ''2024-01-05'', category = ''Food'',
           amount = Finite (- 5), description = ''''\<rparr>]
   \<and> \<not> num_nonneg (amount (hd (expenses
         (handleAddExpense 1704412800000 ''2024-01-05'' negativeAmountState))))
   \<and> alerts (handleAddExpense 1704412800000 ''2024-01-05'' negativeAmountState) = []"
  by (simp add: negativeAmountState_def initialState_def defaultForm_def handleInputChange_def
      handleAddExpense_def setExpenses_def newExpense_def parseFloat_samples toString_clocks)

subsection \<open>Ids\<close>

lemma step_keeps_ids_distinct:
  assumes "distinct (map id' (expenses s))"
    and "case ev of AddExpense now today \<Rightarrow> toString now \<notin> set (map id' (expenses s)) | _ \<Rightarrow> True"
  shows "distinct (map id' (expenses (step s ev)))"
proof (cases ev)
  case (AddExpense now today)
  with assms show ?thesis
    by (simp add: handleAddExpense_def setExpenses_def alert_def newExpense_def)
next
  case (DeleteExpense i)
  with assms show ?thesis
    by (simp add: handleDeleteExpense_def setExpenses_def distinct_map_filter)
next
  case (DeleteAll answer)
  with assms show ?thesis
    by (simp add: handleDeleteAll_def setExpenses_def confirm_def Let_def)
next
  case (DeleteByCategory answer)
  with assms show ?thesis
    by (simp add: handleDeleteByCategory_def setExpenses_def confirm_def alert_def Let_def
        distinct_map_filter)
next
  case (InputChange name v)
  with assms show ?thesis by (simp add: handleInputChange_def Let_def)
next
  case (SetFilter v)
  with assms show ?thesis by (simp add: setFilterCategory_def)
next
  case (DownloadPDF env)
  with assms show ?thesis by (simp add: downloadPDF_def alert_def)
qed

lemma run_keeps_ids_distinct:
  "distinct (map id' (expenses s)) \<Longrightarrow> freshClock s evs \<Longrightarrow>
     distinct (map id' (expenses (foldl step s evs)))"
proof (induction evs arbitrary: s)
  case Nil
  then show ?case by simp
next
  case (Cons ev evs)
  from Cons.prems have "distinct (map id' (expenses (step s ev)))"
    by (intro step_keeps_ids_distinct) simp_all
  moreover from Cons.prems have "freshClock (step s ev) evs" by simp
  ultimately show ?case using Cons.IH by simp
qed

lemma step_entries:
  "e \<in> set (expenses (step s ev)) \<Longrightarrow>
     e \<in> set (expenses s) \<or> (\<exists>now today. ev = AddExpense now today \<and> e = newExpense now (formData s))"
  by (cases ev)
    (auto simp add: handleAddExpense_def handleDeleteExpense_def handleDeleteAll_def
      handleDeleteByCategory_def handleInputChange_def setFilterCategory_def downloadPDF_def
      setExpenses_def confirm_def alert_def Let_def split: if_splits)

text \<open>
  Decimal printing is injective, so adds at different clock readings get different ids;
  from the empty collection, adds at pairwise different readings keep every reading new.
\<close>

lemma digitValue_digitChar: "digitValue (digitChar d) = d mod 10"
proof -
  have "k < 10 \<Longrightarrow> digitValue (''0123456789'' ! k) = k" for k :: nat
    by (auto simp add: less_Suc_eq eval_nat_numeral digitValue_def)
  then show ?thesis by (simp add: digitChar_def)
qed

lemma digitsValue_snoc: "digitsValue (ds @ [c]) = 10 * digitsValue ds + digitValue c"
  by (simp add: digitsValue_def)

lemma digitsValue_toString: "digitsValue (toString n) = n"
proof (induction n rule: toString.induct)
  case (1 n)
  show ?case
  proof (cases "n < 10")
    case True
    then show ?thesis
      by (simp add: toString.simps [of n] digitsValue_def digitValue_digitChar)
  next
    case False
    with "1" show ?thesis
      by (simp add: toString.simps [of n] digitsValue_snoc digitValue_digitChar)
  qed
qed

lemma toString_inject: "toString m = toString n \<Longrightarrow> m = n"
  by (metis digitsValue_toString)

lemma step_ids:
  "set (map id' (expenses (step s ev))) \<subseteq>
     set (map id' (expenses s)) \<union> toString ` set (addClocks [ev])"
  by (cases ev)
    (auto simp add: handleAddExpense_def handleDeleteExpense_def handleDeleteAll_def
      handleDeleteByCategory_def handleInputChange_def setFilterCategory_def downloadPDF_def
      setExpenses_def confirm_def alert_def newExpense_def Let_def split: if_splits)

lemma freshClock_of_distinct_clocks:
  "distinct (addClocks evs) \<Longrightarrow> set (map id' (expenses s)) \<subseteq> toString ` A \<Longrightarrow>
     A \<inter> set (addClocks evs) = {} \<Longrightarrow> freshClock s evs"
proof (induction evs arbitrary: s A)
  case Nil
  then show ?case by simp
next
  case (Cons ev evs)
  have ids: "set (map id' (expenses (step s ev))) \<subseteq> toString ` (A \<union> set (addClocks [ev]))"
    using step_ids [of s ev] Cons.prems(2) by blast
  show ?case
  proof (cases ev)
    case (AddExpense now today)
    with Cons.prems have now: "now \<notin> A" "now \<notin> set (addClocks evs)" "distinct (addClocks evs)"
      by auto
    have "toString now \<notin> set (map id' (expenses s))"
      using Cons.prems(2) now(1) by (auto dest: toString_inject)
    moreover have "freshClock (step s ev) evs"
      using Cons.IH [OF now(3) ids] Cons.prems(3) now AddExpense by auto
    ultimately show ?thesis using AddExpense by simp
  next
    case (InputChange name v)
    with Cons.prems ids Cons.IH [of "step s ev" A] show ?thesis by simp
  next
    case (SetFilter v)
    with Cons.prems ids Cons.IH [of "step s ev" A] show ?thesis by simp
  next
    case (DeleteExpense i)
    with Cons.prems ids Cons.IH [of "step s ev" A] show ?thesis by simp
  next
    case (DeleteAll answer)
    with Cons.prems ids Cons.IH [of "step s ev" A] show ?thesis by simp
  next
    case (DeleteByCategory answer)
    with Cons.prems ids Cons.IH [of "step s ev" A] show ?thesis by simp
  next
    case (DownloadPDF env)
    with Cons.prems ids Cons.IH [of "step s ev" A] show ?thesis by simp
  qed
qed

lemma freshClock_from_initialState:
  "distinct (addClocks evs) \<Longrightarrow> freshClock (initialState today) evs"
  using freshClock_of_distinct_clocks [of evs "initialState today" "{}"]
  by (simp add: initialState_def)

text \<open>
  C7. Ids are to be unique for the lifetime of the collection. The id of a new expense is
  the clock reading in milliseconds, and nothing else makes it unique: two adds at one
  reading give two different expenses the same id, and deleting by that id then removes
  both.
\<close>

theorem same_millisecond_adds_share_id:
  "map id' (expenses (run (initialState ''2024-01-05'') sameMillisecondEvents))
     = [''1704412800000'', ''1704412800000'']
   \<and> map amount (expenses (run (initialState ''2024-01-05'') sameMillisecondEvents))
       = [Finite 20, Finite 10]
   \<and> expenses (run (initialState ''2024-01-05'')
         (sameMillisecondEvents @ [DeleteExpense ''1704412800000''])) = []"
  by (simp add: run_def sameMillisecondEvents_def initialState_def defaultForm_def
      handleInputChange_def handleAddExpense_def handleDeleteExpense_def setExpenses_def
      newExpense_def fieldValue_samples parseFloat_samples toString_clocks)

text \<open>
  Where the clock readings of the adds differ, the claim holds: while every add happens
  at a reading that is not an id in the collection the ids stay distinct, and from the
  empty collection adds at pairwise different readings never give an id twice, also not
  after a deletion.
\<close>

lemma ids_distinct_while_clock_fresh:
  assumes "distinct (map id' (expenses s))" and "freshClock s evs"
  shows "distinct (map id' (expenses (run s evs)))"
  using assms by (simp add: run_def run_keeps_ids_distinct)

lemma ids_distinct_with_distinct_clocks:
  assumes "distinct (addClocks evs)"
  shows "distinct (map id' (expenses (run (initialState today) evs)))"
    and "distinct (map toString (addClocks evs))"
proof -
  show "distinct (map id' (expenses (run (initialState today) evs)))"
    using freshClock_from_initialState [OF assms, of today]
    by (intro ids_distinct_while_clock_fresh) (simp_all add: initialState_def)
  show "distinct (map toString (addClocks evs))"
    using assms by (simp add: distinct_map inj_on_def) (blast dest: toString_inject)
qed

end
